theory Spec2Isabelle
  imports Complex_Main "HOL-Library.AList"
begin

section \<open>Data model\<close>

text \<open>
  Instants are whole seconds on one time line. A table is the list of its rows in insertion
  order; a row carries the \<open>timestamp\<close> column and the remaining columns as
  \<open>columns\<close>. Inserting never merges rows, so a table may hold equal rows several times.
  The dictionaries that the collectors return are records with the same keys. Numbers that
  the program holds in floating point are exact reals here.
\<close>

type_synonym instant = int

definition timedelta_days :: "int \<Rightarrow> int" where
  \<comment> \<open>\<open>timedelta(days=n)\<close>, in seconds\<close>
  "timedelta_days n = n * 86400"

record 'a row =
  timestamp :: instant
  columns :: 'a

record located =
  path :: string

record usage = located +
  usage_percent :: real

record disk_sample = usage +
  total_gb :: real
  used_gb :: real
  free_gb :: real

record inode_sample = usage +
  total_inodes :: int
  used_inodes :: int
  free_inodes :: int

record system_sample =
  cpu_percent :: real
  memory_percent :: real
  load_avg_1 :: real
  load_avg_5 :: real
  load_avg_15 :: real

record fs_sample = located +
  filesystem :: string
  status :: string
  errors :: int

text \<open>
  The message of an alert is an f-string over the path, the usage and the threshold. The
  model keeps its arguments and leaves the rendering of the numbers out.
\<close>

datatype message = Usage_message string string real real

record alert =
  alert_type :: string
  severity :: string
  message :: message

record stored_alert = alert +
  resolved :: bool

record store =
  disk_usage :: "disk_sample row list"
  inode_usage :: "inode_sample row list"
  system_health :: "system_sample row list"
  filesystem_health :: "fs_sample row list"
  alerts :: "stored_alert row list"

record config =
  disk_usage_threshold :: real
  inode_usage_threshold :: real
  monitored_paths :: "string list"
  retention_days :: int

section \<open>The environment of one monitoring cycle\<close>

text \<open>
  What the operating system, the clock and the database driver answer during a cycle is an
  input of the model. For \<open>psutil.disk_usage\<close> and for running \<open>df -i\<close>,
  \<open>None\<close> stands for a raised exception. \<open>fs_check\<close> and \<open>sys_check\<close> are
  the results of \<open>check_filesystem_health\<close> and \<open>get_system_health\<close>, which catch
  their own exceptions. \<open>db_up\<close> says, for each of the three places where the monitor
  opens the database, whether the transaction goes through; a failed transaction is rolled
  back and raises. The four instants are the current time at the insertion of the samples,
  at the insertion of the alerts, and at the two calls of \<open>datetime.now()\<close> in the
  prune pass.
\<close>

datatype error = StoreUnavailable

datatype db_phase = Store_metrics | Store_alerts | Cleanup

record sdiskusage =
  total :: int
  used :: int
  free :: int

record completed_process =
  returncode :: int
  stdout :: string

record env =
  path_exists :: "string \<Rightarrow> bool"
  psutil_disk_usage :: "string \<Rightarrow> sdiskusage option"
  df_inodes :: "string \<Rightarrow> completed_process option"
  fs_check :: "string \<Rightarrow> fs_sample"
  sys_check :: "system_sample option"
  db_up :: "db_phase \<Rightarrow> bool"
  now_store_metrics :: instant
  now_store_alerts :: instant
  now_retention :: instant
  now_alert_retention :: instant

section \<open>Python builtins used by the collectors\<close>

definition round_half_even :: "real \<Rightarrow> int" where
  "round_half_even x =
     (let f = \<lfloor>x\<rfloor>; d = x - of_int f
      in if d < 1 / 2 then f else if 1 / 2 < d then f + 1
         else if even f then f else f + 1)"

definition py_round :: "real \<Rightarrow> nat \<Rightarrow> real" where
  \<comment> \<open>\<open>round(x, n)\<close>: to \<open>n\<close> decimals, ties to the even neighbour; numbers are exact reals\<close>
  "py_round x n = of_int (round_half_even (x * 10 ^ n)) / 10 ^ n"

definition isspace :: "char \<Rightarrow> bool" where
  "isspace c = (let n = (of_char c :: nat) in (9 \<le> n \<and> n \<le> 13) \<or> (28 \<le> n \<and> n \<le> 32))"

definition strip :: "string \<Rightarrow> string" where
  "strip s = rev (dropWhile isspace (rev (dropWhile isspace s)))"

fun split_sep :: "char \<Rightarrow> string \<Rightarrow> string list" where
  \<comment> \<open>\<open>s.split(sep)\<close> for a separator of one character\<close>
  "split_sep sep [] = ['''']"
| "split_sep sep (c # cs) =
     (if c = sep then [] # split_sep sep cs
      else (case split_sep sep cs of [] \<Rightarrow> [c # []] | w # ws \<Rightarrow> (c # w) # ws))"

fun split_words :: "string \<Rightarrow> string \<Rightarrow> string list" where
  \<comment> \<open>\<open>s.split()\<close>; the first argument is the word being read\<close>
  "split_words cur [] = (if cur = [] then [] else [cur])"
| "split_words cur (c # cs) =
     (if isspace c then (if cur = [] then split_words [] cs else cur # split_words [] cs)
      else split_words (cur @ [c]) cs)"

definition split_ws :: "string \<Rightarrow> string list" where
  "split_ws s = split_words [] s"

definition isdigit :: "char \<Rightarrow> bool" where
  "isdigit c = (let n = (of_char c :: nat) in 48 \<le> n \<and> n \<le> 57)"

fun underscores_ok :: "string \<Rightarrow> bool" where
  \<comment> \<open>no two underscores in a row\<close>
  "underscores_ok (a # b # cs) = (\<not> (a = CHR ''_'' \<and> b = CHR ''_'') \<and> underscores_ok (b # cs))"
| "underscores_ok cs = True"

definition digits_value :: "string \<Rightarrow> int" where
  "digits_value ds = foldl (\<lambda>a c. 10 * a + (int (of_char c) - 48)) 0 ds"

definition py_int :: "string \<Rightarrow> int option" where
  \<comment> \<open>\<open>int(s)\<close> on ASCII text; \<open>None\<close> is ValueError\<close>
  "py_int s =
     (let t = strip s;
          neg = (t \<noteq> [] \<and> hd t = CHR ''-'');
          body = (if t \<noteq> [] \<and> (hd t = CHR ''-'' \<or> hd t = CHR ''+'') then tl t else t)
      in if body \<noteq> [] \<and> isdigit (hd body) \<and> isdigit (last body)
            \<and> list_all (\<lambda>c. isdigit c \<or> c = CHR ''_'') body \<and> underscores_ok body
         then Some ((if neg then - 1 else 1) * digits_value (filter isdigit body))
         else None)"

section \<open>Collectors\<close>

definition get_disk_usage :: "env \<Rightarrow> string \<Rightarrow> disk_sample option" where
  \<comment> \<open>every exception, the division by a zero total among them, is caught and gives \<open>None\<close>\<close>
  "get_disk_usage e p =
     (case psutil_disk_usage e p of
        None \<Rightarrow> None
      | Some u \<Rightarrow>
          if total u = 0 then None
          else Some \<lparr>path = p,
                     usage_percent = py_round (real_of_int (used u) / real_of_int (total u) * 100) 2,
                     total_gb = py_round (real_of_int (total u) / 1024 ^ 3) 2,
                     used_gb = py_round (real_of_int (used u) / 1024 ^ 3) 2,
                     free_gb = py_round (real_of_int (free u) / 1024 ^ 3) 2\<rparr>)"

definition get_inode_usage :: "env \<Rightarrow> string \<Rightarrow> inode_sample option" where
  "get_inode_usage e p =
     (case df_inodes e p of
        None \<Rightarrow> None
      | Some result \<Rightarrow>
          if returncode result = 0 then
            let lines = split_sep (CHR 0x0A) (strip (stdout result)) in
            if 2 \<le> length lines then
              let parts = split_ws (lines ! 1) in
              if 6 \<le> length parts then
                (case py_int (parts ! 1) of
                   None \<Rightarrow> None
                 | Some n_total \<Rightarrow>
                (case py_int (parts ! 2) of
                   None \<Rightarrow> None
                 | Some n_used \<Rightarrow>
                (case py_int (parts ! 3) of
                   None \<Rightarrow> None
                 | Some n_free \<Rightarrow>
                     Some \<lparr>path = p,
                           usage_percent =
                             (if 0 < n_total
                              then py_round (real_of_int n_used / real_of_int n_total * 100) 2
                              else 0),
                           total_inodes = n_total,
                           used_inodes = n_used,
                           free_inodes = n_free\<rparr>)))
              else None
            else None
          else None)"

definition check_filesystem_health :: "env \<Rightarrow> string \<Rightarrow> fs_sample" where
  \<comment> \<open>always answers with a sample (\<open>check_failed\<close> after an exception); taken from the environment\<close>
  "check_filesystem_health e p = fs_check e p"

definition get_system_health :: "env \<Rightarrow> system_sample option" where
  "get_system_health e = sys_check e"

section \<open>Persisting samples and alerts\<close>

definition insert_rows :: "instant \<Rightarrow> 'a option list \<Rightarrow> 'a row list \<Rightarrow> 'a row list" where
  \<comment> \<open>\<open>for data in xs: if data: INSERT ...\<close>; the timestamp column takes its default\<close>
  "insert_rows now xs tbl =
     foldl (\<lambda>t data. case data of None \<Rightarrow> t | Some d \<Rightarrow> t @ [\<lparr>timestamp = now, columns = d\<rparr>]) tbl xs"

definition store_metrics ::
  "env \<Rightarrow> disk_sample option list \<Rightarrow> inode_sample option list \<Rightarrow> system_sample option \<Rightarrow>
   fs_sample option list \<Rightarrow> store \<Rightarrow> error + store" where
  "store_metrics e disk_data inode_data system_data filesystem_data st =
     (if \<not> db_up e Store_metrics then Inl StoreUnavailable
      else
        let now = now_store_metrics e;
            st1 = st\<lparr>disk_usage := insert_rows now disk_data (disk_usage st)\<rparr>;
            st2 = st1\<lparr>inode_usage := insert_rows now inode_data (inode_usage st1)\<rparr>;
            st3 = st2\<lparr>system_health := insert_rows now [system_data] (system_health st2)\<rparr>
        in Inr (st3\<lparr>filesystem_health := insert_rows now filesystem_data (filesystem_health st3)\<rparr>))"

definition store_alerts :: "env \<Rightarrow> alert list \<Rightarrow> store \<Rightarrow> error + store" where
  "store_alerts e new_alerts st =
     (if \<not> db_up e Store_alerts then Inl StoreUnavailable
      else Inr (st\<lparr>alerts :=
                  foldl (\<lambda>t a. t @ [\<lparr>timestamp = now_store_alerts e,
                                      columns = \<lparr>alert_type = alert_type a, severity = severity a,
                                                 message = message a, resolved = False\<rparr>\<rparr>])
                        (alerts st) new_alerts\<rparr>))"

section \<open>Threshold evaluation\<close>

definition disk_alert :: "config \<Rightarrow> disk_sample \<Rightarrow> alert" where
  "disk_alert cfg d =
     \<lparr>alert_type = ''disk_usage'',
      severity = (if 95 < usage_percent d then ''critical'' else ''warning''),
      message = Usage_message ''Disk usage'' (path d) (usage_percent d) (disk_usage_threshold cfg)\<rparr>"

definition inode_alert :: "config \<Rightarrow> inode_sample \<Rightarrow> alert" where
  "inode_alert cfg d =
     \<lparr>alert_type = ''inode_usage'',
      severity = (if 95 < usage_percent d then ''critical'' else ''warning''),
      message = Usage_message ''Inode usage'' (path d) (usage_percent d) (inode_usage_threshold cfg)\<rparr>"

definition threshold_alerts ::
  "config \<Rightarrow> disk_sample option list \<Rightarrow> inode_sample option list \<Rightarrow> alert list" where
  \<comment> \<open>the list \<open>alerts\<close> of \<open>check_thresholds_and_alert\<close> after its two loops\<close>
  "threshold_alerts cfg disk_data inode_data =
     (let alerts0 = [];
          alerts1 = foldl (\<lambda>acc data.
                       case data of None \<Rightarrow> acc
                       | Some d \<Rightarrow> if disk_usage_threshold cfg < usage_percent d
                                   then acc @ [disk_alert cfg d] else acc) alerts0 disk_data
      in foldl (\<lambda>acc data.
                  case data of None \<Rightarrow> acc
                  | Some d \<Rightarrow> if inode_usage_threshold cfg < usage_percent d
                              then acc @ [inode_alert cfg d] else acc) alerts1 inode_data)"

definition check_thresholds_and_alert ::
  "config \<Rightarrow> env \<Rightarrow> disk_sample option list \<Rightarrow> inode_sample option list \<Rightarrow> store \<Rightarrow> error + store" where
  \<comment> \<open>returns no value; sending mail touches no table and swallows its own errors, and is left out\<close>
  "check_thresholds_and_alert cfg e disk_data inode_data st =
     (let new_alerts = threshold_alerts cfg disk_data inode_data
      in if new_alerts \<noteq> [] then store_alerts e new_alerts st else Inr st)"

section \<open>Retention\<close>

definition delete_older :: "instant \<Rightarrow> 'a row list \<Rightarrow> 'a row list" where
  \<comment> \<open>\<open>DELETE FROM table WHERE timestamp < ?\<close>\<close>
  "delete_older cutoff rows = filter (\<lambda>r. \<not> timestamp r < cutoff) rows"

definition cleanup_old_data :: "config \<Rightarrow> env \<Rightarrow> store \<Rightarrow> error + store" where
  "cleanup_old_data cfg e st =
     (if \<not> db_up e Cleanup then Inl StoreUnavailable
      else
        let retention_date = now_retention e - timedelta_days (retention_days cfg);
            st1 = st\<lparr>disk_usage := delete_older retention_date (disk_usage st)\<rparr>;
            st2 = st1\<lparr>inode_usage := delete_older retention_date (inode_usage st1)\<rparr>;
            st3 = st2\<lparr>system_health := delete_older retention_date (system_health st2)\<rparr>;
            st4 = st3\<lparr>filesystem_health := delete_older retention_date (filesystem_health st3)\<rparr>;
            alert_retention_date = now_alert_retention e - timedelta_days 90
        in Inr (st4\<lparr>alerts := delete_older alert_retention_date (alerts st4)\<rparr>))"

section \<open>The monitoring cycle\<close>

definition collect_disk :: "config \<Rightarrow> env \<Rightarrow> disk_sample list" where
  "collect_disk cfg e =
     foldl (\<lambda>disk_data p.
              if path_exists e p
              then (case get_disk_usage e p of None \<Rightarrow> disk_data | Some d \<Rightarrow> disk_data @ [d])
              else disk_data) [] (monitored_paths cfg)"

definition collect_inode :: "config \<Rightarrow> env \<Rightarrow> inode_sample list" where
  "collect_inode cfg e =
     foldl (\<lambda>inode_data p.
              if path_exists e p
              then (case get_inode_usage e p of None \<Rightarrow> inode_data | Some d \<Rightarrow> inode_data @ [d])
              else inode_data) [] (monitored_paths cfg)"

definition collect_filesystem :: "config \<Rightarrow> env \<Rightarrow> fs_sample list" where
  "collect_filesystem cfg e =
     foldl (\<lambda>filesystem_data p.
              if path_exists e p then filesystem_data @ [check_filesystem_health e p]
              else filesystem_data) [] (monitored_paths cfg)"

definition run_monitoring_cycle :: "config \<Rightarrow> env \<Rightarrow> store \<Rightarrow> error option \<times> store" where
  \<comment> \<open>the error, if one was raised and passed on, and the database the cycle leaves behind\<close>
  "run_monitoring_cycle cfg e st =
     (let disk_data = map Some (collect_disk cfg e);
          inode_data = map Some (collect_inode cfg e);
          system_data = get_system_health e;
          filesystem_data = map Some (collect_filesystem cfg e)
      in case store_metrics e disk_data inode_data system_data filesystem_data st of
           Inl err \<Rightarrow> (Some err, st)
         | Inr st1 \<Rightarrow>
             (case check_thresholds_and_alert cfg e disk_data inode_data st1 of
                Inl err \<Rightarrow> (Some err, st1)
              | Inr st2 \<Rightarrow>
                  (case cleanup_old_data cfg e st2 of
                     Inl err \<Rightarrow> (Some err, st2)
                   | Inr st3 \<Rightarrow> (None, st3))))"

section \<open>Reading the database for reports\<close>

text \<open>
  The report generator reads the tables the monitor writes. Each query keeps the rows of the
  last \<open>d\<close> days and orders them by timestamp; rows with equal timestamps stay in insertion
  order. The database file is taken to exist.
\<close>

definition window_start :: "instant \<Rightarrow> int \<Rightarrow> instant" where
  \<comment> \<open>\<open>datetime('now', '-d days')\<close>\<close>
  "window_start now d = now - timedelta_days d"

definition get_disk_usage_data :: "store \<Rightarrow> instant \<Rightarrow> int \<Rightarrow> disk_sample row list" where
  "get_disk_usage_data st now d =
     sort_key timestamp (filter (\<lambda>r. window_start now d \<le> timestamp r) (store.disk_usage st))"

definition get_system_health_data :: "store \<Rightarrow> instant \<Rightarrow> int \<Rightarrow> system_sample row list" where
  "get_system_health_data st now d =
     sort_key timestamp (filter (\<lambda>r. window_start now d \<le> timestamp r) (system_health st))"

section \<open>Series operations\<close>

fun unique :: "'a list \<Rightarrow> 'a list" where
  \<comment> \<open>the distinct values in order of first appearance\<close>
  "unique [] = []"
| "unique (x # xs) = x # unique (filter (\<lambda>y. y \<noteq> x) xs)"

definition rows_of_path :: "string \<Rightarrow> disk_sample row list \<Rightarrow> disk_sample row list" where
  \<comment> \<open>\<open>disk_data[disk_data['path'] == p].sort_values('timestamp')\<close>\<close>
  "rows_of_path p disk_data = sort_key timestamp (filter (\<lambda>r. path (columns r) = p) disk_data)"

definition usage_series :: "disk_sample row list \<Rightarrow> real list" where
  "usage_series rows = map (\<lambda>r. usage_percent (columns r)) rows"

definition diffs :: "real list \<Rightarrow> real list" where
  \<comment> \<open>\<open>Series.diff()\<close> without its leading NaN, which no comparison and no mean counts\<close>
  "diffs xs = map (\<lambda>(a, b). b - a) (zip xs (tl xs))"

definition mean :: "real list \<Rightarrow> real" where
  \<comment> \<open>of a series that is not empty\<close>
  "mean xs = sum_list xs / real (length xs)"

definition diff_mean :: "real list \<Rightarrow> real option" where
  \<comment> \<open>\<open>Series.diff().mean()\<close>; \<open>None\<close> is NaN, the mean of no difference at all\<close>
  "diff_mean xs = (if diffs xs = [] then None else Some (mean (diffs xs)))"

definition tail :: "nat \<Rightarrow> 'a list \<Rightarrow> 'a list" where
  "tail n xs = drop (length xs - n) xs"

definition series_max :: "real list \<Rightarrow> real" where
  "series_max xs = fold max xs (hd xs)"

definition series_min :: "real list \<Rightarrow> real" where
  "series_min xs = fold min xs (hd xs)"

definition classify_trend :: "real option \<Rightarrow> string" where
  \<comment> \<open>every comparison with NaN is false\<close>
  "classify_trend d =
     (if (case d of None \<Rightarrow> False | Some x \<Rightarrow> 0.1 < x) then ''increasing''
      else if (case d of None \<Rightarrow> False | Some x \<Rightarrow> x < - 0.1) then ''decreasing''
      else ''stable'')"

section \<open>Cleanup effectiveness\<close>

record cleanup_entry =
  initial_usage :: real
  final_usage :: real
  trend :: real
  avg_daily_change :: real
  cleanup_events :: nat
  effectiveness :: string

datatype cleanup_analysis =
    No_data  \<comment> \<open>the dictionary \<open>{"status": "no_data", "message": ...}\<close>\<close>
  | Analysis "(string \<times> cleanup_entry) list"

definition cleanup_entry_of :: "disk_sample row list \<Rightarrow> cleanup_entry" where
  \<comment> \<open>what the loop computes from the rows of one path, of which there are at least two\<close>
  "cleanup_entry_of path_data =
     (let initial = usage_percent (columns (hd path_data));
          final = usage_percent (columns (last path_data));
          change = final - initial;
          days_span = (timestamp (last path_data) - timestamp (hd path_data)) div 86400;
          daily = change / real_of_int (max days_span 1);
          events = length (filter (\<lambda>d. d < - 1) (diffs (usage_series path_data)))
      in \<lparr>initial_usage = py_round initial 2,
          final_usage = py_round final 2,
          trend = py_round change 2,
          avg_daily_change = py_round daily 3,
          cleanup_events = events,
          effectiveness = (if change < 0 then ''good'' else if 5 < change then ''poor'' else ''stable'')\<rparr>)"

definition analyze_path ::
  "disk_sample row list \<Rightarrow> (string \<times> cleanup_entry) list \<Rightarrow> string \<Rightarrow> (string \<times> cleanup_entry) list" where
  \<comment> \<open>the body of the loop over the paths\<close>
  "analyze_path disk_data analysis p =
     (let path_data = rows_of_path p disk_data in
      if length path_data < 2 then analysis
      else AList.update p (cleanup_entry_of path_data) analysis)"

definition analyze_cleanup_effectiveness :: "store \<Rightarrow> instant \<Rightarrow> int \<Rightarrow> cleanup_analysis" where
  "analyze_cleanup_effectiveness st now d =
     (let disk_data = get_disk_usage_data st now d in
      if disk_data = [] then No_data
      else Analysis (foldl (analyze_path disk_data) []
                       (unique (map (\<lambda>r. path (columns r)) disk_data))))"

section \<open>Trend analysis\<close>

record metric_trend =
  current_avg :: real
  trend :: string
  max_value :: real
  min_value :: real

record disk_trend =
  current_usage :: real
  trend :: string
  max_usage :: real
  min_usage :: real

record trends =
  cpu :: "metric_trend option"
  memory :: "metric_trend option"
  load_average :: "metric_trend option"
  disk_usage :: "(string \<times> disk_trend) list option"

definition series_trend :: "real list \<Rightarrow> metric_trend" where
  \<comment> \<open>the entry built for one column of the health data, which is not empty\<close>
  "series_trend xs =
     \<lparr>current_avg = py_round (mean (tail 7 xs)) 2,
      metric_trend.trend = classify_trend (diff_mean xs),
      max_value = py_round (series_max xs) 2,
      min_value = py_round (series_min xs) 2\<rparr>"

definition disk_trend_of :: "disk_sample row list \<Rightarrow> disk_trend" where
  \<comment> \<open>what the loop computes from the rows of one path, of which there are at least two\<close>
  "disk_trend_of path_data =
     (let usage_trend = diff_mean (usage_series path_data)
      in \<lparr>current_usage = py_round (last (usage_series path_data)) 2,
          disk_trend.trend = classify_trend usage_trend,
          max_usage = py_round (series_max (usage_series path_data)) 2,
          min_usage = py_round (series_min (usage_series path_data)) 2\<rparr>)"

definition trend_of_path ::
  "disk_sample row list \<Rightarrow> (string \<times> disk_trend) list \<Rightarrow> string \<Rightarrow> (string \<times> disk_trend) list" where
  \<comment> \<open>the body of the loop over the paths\<close>
  "trend_of_path disk_data acc p =
     (let path_data = rows_of_path p disk_data in
      if 1 < length path_data then AList.update p (disk_trend_of path_data) acc
      else acc)"

definition generate_trend_analysis :: "store \<Rightarrow> instant \<Rightarrow> int \<Rightarrow> trends" where
  \<comment> \<open>\<open>None\<close> is a key that the returned dictionary does not have\<close>
  "generate_trend_analysis st now d =
     (let health_data = get_system_health_data st now d;
          disk_data = get_disk_usage_data st now d
      in \<lparr>cpu = (if health_data \<noteq> []
                  then Some (series_trend (map (\<lambda>r. cpu_percent (columns r)) health_data)) else None),
          memory = (if health_data \<noteq> []
                    then Some (series_trend (map (\<lambda>r. memory_percent (columns r)) health_data)) else None),
          load_average = (if health_data \<noteq> []
                          then Some (series_trend (map (\<lambda>r. load_avg_1 (columns r)) health_data)) else None),
          trends.disk_usage = (if disk_data \<noteq> []
                        then Some (foldl (trend_of_path disk_data) []
                                     (unique (map (\<lambda>r. path (columns r)) disk_data)))
                        else None)\<rparr>)"

section \<open>The monthly rollup\<close>

record cleanup_rollup =
  overall_rating :: string
  good_count :: nat
  total_paths :: nat

definition rollup :: "cleanup_analysis \<Rightarrow> cleanup_rollup option" where
  \<comment> \<open>the cleanup section of the monthly report; \<open>None\<close> when it says that there is no data\<close>
  "rollup cleanup =
     (case cleanup of
        No_data \<Rightarrow> None
      | Analysis a \<Rightarrow>
          let effectiveness_scores = map (\<lambda>(p, data). effectiveness data) a;
              good = count_list effectiveness_scores ''good'';
              n = length effectiveness_scores
          in Some \<lparr>overall_rating =
                     (if good = n then ''Excellent''
                      else if real n / 2 < real good then ''Good''
                      else ''Needs Improvement''),
                   good_count = good,
                   total_paths = n\<rparr>)"

definition generate_monthly_report :: "store \<Rightarrow> instant \<Rightarrow> cleanup_rollup option" where
  "generate_monthly_report st now = rollup (analyze_cleanup_effectiveness st now 30)"

section \<open>Concrete inputs\<close>

text \<open>
  The default configuration of the monitor, and an environment in which \<open>/\<close> answers every
  collector, \<open>psutil\<close> raises for \<open>/home\<close> and \<open>df\<close> exits with an error there,
  \<open>/var\<close> is a filesystem that reports a size of zero and zero inodes, and \<open>/tmp\<close> does
  not exist.
\<close>

definition default_config :: config where
  "default_config =
     \<lparr>disk_usage_threshold = 85, inode_usage_threshold = 85,
      monitored_paths = [''/'', ''/home'', ''/var'', ''/tmp''], retention_days = 30\<rparr>"

definition empty_store :: store where
  "empty_store =
     \<lparr>store.disk_usage = [], inode_usage = [], system_health = [],
      filesystem_health = [], alerts = []\<rparr>"

definition df_header :: string where
  "df_header = ''Filesystem Inodes IUsed IFree IUse% Mounted on''"

definition df_output :: "string \<Rightarrow> string" where
  "df_output line = df_header @ [CHR 0x0A] @ line @ [CHR 0x0A]"

definition example_env :: env where
  "example_env =
     \<lparr>path_exists = (\<lambda>p. p \<noteq> ''/tmp''),
      psutil_disk_usage = (\<lambda>p.
        if p = ''/'' then Some \<lparr>total = 107374182400, used = 96636764160, free = 10737418240\<rparr>
        else if p = ''/var'' then Some \<lparr>total = 0, used = 0, free = 0\<rparr>
        else None),
      df_inodes = (\<lambda>p.
        if p = ''/'' then
          Some \<lparr>returncode = 0, stdout = df_output ''/dev/sda1 1000 960 40 96% /''\<rparr>
        else if p = ''/var'' then
          Some \<lparr>returncode = 0, stdout = df_output ''/dev/sdb1 0 0 0 - /var''\<rparr>
        else Some \<lparr>returncode = 1, stdout = []\<rparr>),
      fs_check = (\<lambda>p. \<lparr>path = p, filesystem = ''ext4'', status = ''healthy'', errors = 0\<rparr>),
      sys_check = None,
      db_up = (\<lambda>ph. True),
      now_store_metrics = 8000000,
      now_store_alerts = 8000001,
      now_retention = 8000002,
      now_alert_retention = 8000003\<rparr>"

definition disk_at :: "string \<Rightarrow> real \<Rightarrow> disk_sample" where
  "disk_at p u = \<lparr>path = p, usage_percent = u, total_gb = 100, used_gb = u, free_gb = 100 - u\<rparr>"

definition inode_at :: "string \<Rightarrow> real \<Rightarrow> inode_sample" where
  "inode_at p u =
     \<lparr>path = p, usage_percent = u, total_inodes = 1000,
      used_inodes = \<lfloor>10 * u\<rfloor>, free_inodes = 1000 - \<lfloor>10 * u\<rfloor>\<rparr>"

definition disk_row :: "instant \<Rightarrow> string \<Rightarrow> real \<Rightarrow> disk_sample row" where
  "disk_row t p u = \<lparr>timestamp = t, columns = disk_at p u\<rparr>"

definition health_row :: "instant \<Rightarrow> real \<Rightarrow> system_sample row" where
  "health_row t u =
     \<lparr>timestamp = t,
      columns = \<lparr>cpu_percent = u, memory_percent = 40, load_avg_1 = 1, load_avg_5 = 1, load_avg_15 = 1\<rparr>\<rparr>"

definition alert_row :: "instant \<Rightarrow> stored_alert row" where
  "alert_row t =
     \<lparr>timestamp = t,
      columns = \<lparr>alert_type = ''disk_usage'', severity = ''warning'',
                 message = Usage_message ''Disk usage'' ''/'' 90 85, resolved = False\<rparr>\<rparr>"

definition aged_store :: store where
  \<comment> \<open>rows on both sides of the two cutoffs that \<open>example_env\<close> and 30 days give\<close>
  "aged_store =
     \<lparr>store.disk_usage = [disk_row 5408001 ''/'' 50, disk_row 5408002 ''/'' 51],
      inode_usage = [], system_health = [health_row 5408001 10, health_row 8000000 20],
      filesystem_health = [],
      alerts = [alert_row 224002, alert_row 224003, alert_row 5408001]\<rparr>"



definition mixed_store :: store where
  "mixed_store =
     \<lparr>store.disk_usage =
        [disk_row 0 ''/a'' 50, disk_row 0 ''/b'' 30, disk_row 0 ''/c'' 10, disk_row 0 ''/d'' 70,
         disk_row 86400 ''/a'' 40, disk_row 86400 ''/b'' 20, disk_row 86400 ''/c'' 30],
      inode_usage = [], system_health = [], filesystem_health = [], alerts = []\<rparr>"

section \<open>Retention: the boundary and the two horizons\<close>

lemma count_list_filter: "count_list (filter P xs) x = (if P x then count_list xs x else 0)"
  by (induction xs) auto

lemma delete_older_filter: "delete_older C rows = filter (\<lambda>r. C \<le> timestamp r) rows"
  unfolding delete_older_def by (rule filter_cong) auto

lemma cleanup_tables:
  assumes "cleanup_old_data cfg e st = Inr st'"
  shows "store.disk_usage st' =
       delete_older (now_retention e - retention_days cfg * 86400) (store.disk_usage st)"
    and "inode_usage st' =
       delete_older (now_retention e - retention_days cfg * 86400) (inode_usage st)"
    and "system_health st' =
       delete_older (now_retention e - retention_days cfg * 86400) (system_health st)"
    and "filesystem_health st' =
       delete_older (now_retention e - retention_days cfg * 86400) (filesystem_health st)"
    and "alerts st' = delete_older (now_alert_retention e - 90 * 86400) (alerts st)"
  using assms
  by (auto simp: cleanup_old_data_def Let_def timedelta_days_def split: if_splits)

text \<open>
  Claim C4. Pruning a table with cutoff \<open>C\<close> removes every row whose timestamp is
  strictly before \<open>C\<close> and keeps every other row, as often as the table held it and in
  the same order; a row stamped exactly \<open>C\<close> stays. The prune pass treats each of its five
  tables in this way, with the cutoff of that table.
\<close>

theorem delete_older_boundary:
  "(\<forall>r \<in> set rows. timestamp r < C \<longrightarrow> r \<notin> set (delete_older C rows)) \<and>
   (\<forall>r \<in> set rows. C \<le> timestamp r \<longrightarrow> count_list (delete_older C rows) r = count_list rows r) \<and>
   (\<forall>r \<in> set rows. timestamp r = C \<longrightarrow> r \<in> set (delete_older C rows)) \<and>
   set (delete_older C rows) \<subseteq> set rows \<and>
   delete_older C rows = filter (\<lambda>r. C \<le> timestamp r) rows \<and>
   (cleanup_old_data cfg e st = Inr st' \<longrightarrow>
      store.disk_usage st' =
        filter (\<lambda>r. now_retention e - retention_days cfg * 86400 \<le> timestamp r) (store.disk_usage st) \<and>
      inode_usage st' =
        filter (\<lambda>r. now_retention e - retention_days cfg * 86400 \<le> timestamp r) (inode_usage st) \<and>
      system_health st' =
        filter (\<lambda>r. now_retention e - retention_days cfg * 86400 \<le> timestamp r) (system_health st) \<and>
      filesystem_health st' =
        filter (\<lambda>r. now_retention e - retention_days cfg * 86400 \<le> timestamp r) (filesystem_health st) \<and>
      alerts st' =
        filter (\<lambda>r. now_alert_retention e - 90 * 86400 \<le> timestamp r) (alerts st))"
proof -
  have "\<forall>r \<in> set rows. timestamp r < C \<longrightarrow> r \<notin> set (delete_older C rows)"
    by (auto simp: delete_older_filter)
  moreover have "\<forall>r \<in> set rows. C \<le> timestamp r \<longrightarrow>
      count_list (delete_older C rows) r = count_list rows r"
    by (simp add: delete_older_filter count_list_filter)
  moreover have "\<forall>r \<in> set rows. timestamp r = C \<longrightarrow> r \<in> set (delete_older C rows)"
    by (simp add: delete_older_filter)
  moreover have "set (delete_older C rows) \<subseteq> set rows"
    by (auto simp: delete_older_filter)
  moreover note delete_older_filter [of C rows]
  moreover have "cleanup_old_data cfg e st = Inr st' \<longrightarrow>
      store.disk_usage st' =
        filter (\<lambda>r. now_retention e - retention_days cfg * 86400 \<le> timestamp r) (store.disk_usage st) \<and>
      inode_usage st' =
        filter (\<lambda>r. now_retention e - retention_days cfg * 86400 \<le> timestamp r) (inode_usage st) \<and>
      system_health st' =
        filter (\<lambda>r. now_retention e - retention_days cfg * 86400 \<le> timestamp r) (system_health st) \<and>
      filesystem_health st' =
        filter (\<lambda>r. now_retention e - retention_days cfg * 86400 \<le> timestamp r) (filesystem_health st) \<and>
      alerts st' =
        filter (\<lambda>r. now_alert_retention e - 90 * 86400 \<le> timestamp r) (alerts st)"
    using cleanup_tables [of cfg e st st'] by (simp add: delete_older_filter)
  ultimately show ?thesis
    by blast
qed

theorem delete_older_boundary_witness:
  "disk_row 99 ''/'' 50 \<in> set [disk_row 99 ''/'' 50, disk_row 100 ''/'' 51, disk_row 101 ''/'' 52] \<and>
   disk_row 99 ''/'' 50 \<notin> set (delete_older 100 [disk_row 99 ''/'' 50, disk_row 100 ''/'' 51, disk_row 101 ''/'' 52]) \<and>
   disk_row 100 ''/'' 51 \<in> set (delete_older 100 [disk_row 99 ''/'' 50, disk_row 100 ''/'' 51, disk_row 101 ''/'' 52]) \<and>
   delete_older 100 [disk_row 99 ''/'' 50, disk_row 100 ''/'' 51, disk_row 101 ''/'' 52]
     = [disk_row 100 ''/'' 51, disk_row 101 ''/'' 52] \<and>
   now_retention example_env - retention_days default_config * 86400 = 5408002 \<and>
   store.disk_usage aged_store = [disk_row 5408001 ''/'' 50, disk_row 5408002 ''/'' 51] \<and>
   (\<exists>st'. cleanup_old_data default_config example_env aged_store = Inr st' \<and>
      store.disk_usage st' = [disk_row 5408002 ''/'' 51])"
proof -
  have small:
    "disk_row 99 ''/'' 50 \<in> set [disk_row 99 ''/'' 50, disk_row 100 ''/'' 51, disk_row 101 ''/'' 52] \<and>
     disk_row 99 ''/'' 50 \<notin> set (delete_older 100 [disk_row 99 ''/'' 50, disk_row 100 ''/'' 51, disk_row 101 ''/'' 52]) \<and>
     disk_row 100 ''/'' 51 \<in> set (delete_older 100 [disk_row 99 ''/'' 50, disk_row 100 ''/'' 51, disk_row 101 ''/'' 52]) \<and>
     delete_older 100 [disk_row 99 ''/'' 50, disk_row 100 ''/'' 51, disk_row 101 ''/'' 52]
       = [disk_row 100 ''/'' 51, disk_row 101 ''/'' 52]"
    using delete_older_boundary [of "[disk_row 99 ''/'' 50, disk_row 100 ''/'' 51, disk_row 101 ''/'' 52]" 100
        default_config example_env aged_store aged_store]
    by (simp add: disk_row_def)
  have cut: "now_retention example_env - retention_days default_config * 86400 = 5408002"
    by (simp add: example_env_def default_config_def)
  have rows: "store.disk_usage aged_store = [disk_row 5408001 ''/'' 50, disk_row 5408002 ''/'' 51]"
    by (simp add: aged_store_def)
  obtain st' where st': "cleanup_old_data default_config example_env aged_store = Inr st'"
    by (simp add: cleanup_old_data_def example_env_def Let_def)
  from delete_older_boundary [of "[]" 0 default_config example_env aged_store st'] st'
  have kept: "store.disk_usage st' =
      filter (\<lambda>r. now_retention example_env - retention_days default_config * 86400 \<le> timestamp r)
        (store.disk_usage aged_store)"
    by blast
  have "store.disk_usage st' = [disk_row 5408002 ''/'' 51]"
    unfolding kept cut rows by (simp add: disk_row_def)
  with small cut rows st' show ?thesis
    by blast
qed



section \<open>Threshold evaluation: which alerts are raised\<close>

lemma foldl_snoc_concat:
  assumes "\<And>acc x. step acc x = acc @ g x"
  shows "foldl step acc xs = acc @ concat (map g xs)"
  using assms by (induction xs arbitrary: acc) simp_all

lemma disk_loop:
  "foldl (\<lambda>acc data. case data of None \<Rightarrow> acc
            | Some d \<Rightarrow> if disk_usage_threshold cfg < usage_percent d
                        then acc @ [disk_alert cfg d] else acc) acc disk_data
   = acc @ concat (map (\<lambda>data. case data of None \<Rightarrow> []
            | Some d \<Rightarrow> if disk_usage_threshold cfg < usage_percent d
                        then [disk_alert cfg d] else []) disk_data)"
  by (rule foldl_snoc_concat) (simp split: option.split)

lemma inode_loop:
  "foldl (\<lambda>acc data. case data of None \<Rightarrow> acc
            | Some d \<Rightarrow> if inode_usage_threshold cfg < usage_percent d
                        then acc @ [inode_alert cfg d] else acc) acc inode_data
   = acc @ concat (map (\<lambda>data. case data of None \<Rightarrow> []
            | Some d \<Rightarrow> if inode_usage_threshold cfg < usage_percent d
                        then [inode_alert cfg d] else []) inode_data)"
  by (rule foldl_snoc_concat) (simp split: option.split)

text \<open>
  Claim C1. The alerts raised are, in order, one per disk sample whose usage is strictly
  above the disk threshold, then one per inode sample whose usage is strictly above the inode
  threshold, and nothing for any other sample; the alert of a sample is \<open>critical\<close> when
  its usage is above 95 and \<open>warning\<close> otherwise.
\<close>

theorem threshold_alerts_rule:
  "threshold_alerts cfg disk_data inode_data =
     concat (map (\<lambda>data. case data of None \<Rightarrow> []
                  | Some d \<Rightarrow> if disk_usage_threshold cfg < usage_percent d
                              then [disk_alert cfg d] else []) disk_data)
     @ concat (map (\<lambda>data. case data of None \<Rightarrow> []
                  | Some d \<Rightarrow> if inode_usage_threshold cfg < usage_percent d
                              then [inode_alert cfg d] else []) inode_data)
   \<and> alert_type (disk_alert cfg d) = ''disk_usage''
   \<and> severity (disk_alert cfg d) = (if 95 < usage_percent d then ''critical'' else ''warning'')
   \<and> alert_type (inode_alert cfg i) = ''inode_usage''
   \<and> severity (inode_alert cfg i) = (if 95 < usage_percent i then ''critical'' else ''warning'')"
  by (simp add: threshold_alerts_def disk_loop inode_loop disk_alert_def inode_alert_def)

theorem threshold_alerts_rule_witness:
  "threshold_alerts default_config
     [Some (disk_at ''/var'' 80), Some (disk_at ''/var'' 90), Some (disk_at ''/var'' 96),
      Some (disk_at ''/var'' 85)]
     [Some (inode_at ''/'' 95)]
   = [\<lparr>alert_type = ''disk_usage'', severity = ''warning'',
       message = Usage_message ''Disk usage'' ''/var'' 90 85\<rparr>,
      \<lparr>alert_type = ''disk_usage'', severity = ''critical'',
       message = Usage_message ''Disk usage'' ''/var'' 96 85\<rparr>,
      \<lparr>alert_type = ''inode_usage'', severity = ''warning'',
       message = Usage_message ''Inode usage'' ''/'' 95 85\<rparr>]"
  using threshold_alerts_rule [of default_config
     "[Some (disk_at ''/var'' 80), Some (disk_at ''/var'' 90), Some (disk_at ''/var'' 96),
       Some (disk_at ''/var'' 85)]"
     "[Some (inode_at ''/'' 95)]"]
  by (simp add: default_config_def disk_at_def inode_at_def disk_alert_def inode_alert_def)

section \<open>Threshold evaluation: what it does to the database\<close>

lemma store_loop:
  "foldl (\<lambda>t a. t @ [f a]) tbl xs = tbl @ map f xs"
  by (induction xs arbitrary: tbl) simp_all

text \<open>
  Claim C7, as the code has it. The alerts are a function of the samples and the two
  thresholds alone, but \<open>check_thresholds_and_alert\<close> returns nothing and stores them
  itself: when at least one alert is raised and the database is reachable, the alert table
  grows by exactly these alerts, in order, each unresolved and stamped by the database, and
  no other table changes; when no alert is raised the database is left as it was.
\<close>

theorem check_thresholds_stores_alerts:
  "check_thresholds_and_alert cfg e disk_data inode_data st =
     (if threshold_alerts cfg disk_data inode_data = [] then Inr st
      else if db_up e Store_alerts then
        Inr (st\<lparr>alerts := alerts st @
               map (\<lambda>a. \<lparr>timestamp = now_store_alerts e,
                         columns = \<lparr>alert_type = alert_type a, severity = severity a,
                                    message = message a, resolved = False\<rparr>\<rparr>)
                   (threshold_alerts cfg disk_data inode_data)\<rparr>)
      else Inl StoreUnavailable)
   \<and> (case check_thresholds_and_alert cfg e disk_data inode_data st of
         Inl err \<Rightarrow> True
       | Inr st' \<Rightarrow>
           store.disk_usage st' = store.disk_usage st \<and> inode_usage st' = inode_usage st \<and>
           system_health st' = system_health st \<and> filesystem_health st' = filesystem_health st)"
  by (simp add: check_thresholds_and_alert_def store_alerts_def store_loop Let_def)

theorem check_thresholds_stores_alerts_witness:
  "check_thresholds_and_alert default_config example_env
     [Some (disk_at ''/'' 80)] [Some (inode_at ''/'' 96)] aged_store
   = Inr (aged_store\<lparr>alerts := alerts aged_store @
        [\<lparr>timestamp = 8000001,
          columns = \<lparr>alert_type = ''inode_usage'', severity = ''critical'',
                     message = Usage_message ''Inode usage'' ''/'' 96 85, resolved = False\<rparr>\<rparr>]\<rparr>)
   \<and> check_thresholds_and_alert default_config example_env
       [Some (disk_at ''/'' 80)] [Some (inode_at ''/'' 85)] aged_store = Inr aged_store"
proof -
  have raised:
    "threshold_alerts default_config [Some (disk_at ''/'' 80)] [Some (inode_at ''/'' 96)]
      = [\<lparr>alert_type = ''inode_usage'', severity = ''critical'',
          message = Usage_message ''Inode usage'' ''/'' 96 85\<rparr>]"
    by (simp add: threshold_alerts_def default_config_def disk_at_def inode_at_def inode_alert_def)
  have quiet:
    "threshold_alerts default_config [Some (disk_at ''/'' 80)] [Some (inode_at ''/'' 85)] = []"
    by (simp add: threshold_alerts_def default_config_def disk_at_def inode_at_def)
  have up: "db_up example_env Store_alerts" "now_store_alerts example_env = 8000001"
    by (simp_all add: example_env_def)
  show ?thesis
    using check_thresholds_stores_alerts [of default_config example_env
        "[Some (disk_at ''/'' 80)]" "[Some (inode_at ''/'' 96)]" aged_store, THEN conjunct1]
      check_thresholds_stores_alerts [of default_config example_env
        "[Some (disk_at ''/'' 80)]" "[Some (inode_at ''/'' 85)]" aged_store, THEN conjunct1]
    by (simp add: raised quiet up)
qed

theorem check_thresholds_pure_counterexample:
  "check_thresholds_and_alert default_config example_env [Some (disk_at ''/'' 90)] [] empty_store
   = Inr (empty_store\<lparr>alerts :=
        [\<lparr>timestamp = 8000001,
          columns = \<lparr>alert_type = ''disk_usage'', severity = ''warning'',
                     message = Usage_message ''Disk usage'' ''/'' 90 85, resolved = False\<rparr>\<rparr>]\<rparr>)
   \<and> check_thresholds_and_alert default_config example_env [Some (disk_at ''/'' 90)] [] empty_store
       \<noteq> Inr empty_store"
  by (simp add: check_thresholds_and_alert_def threshold_alerts_def store_alerts_def
      default_config_def example_env_def disk_at_def disk_alert_def empty_store_def)

section \<open>Division by a zero total\<close>

text \<open>
  Claim C6, as the code has it. The inode collector guards the division: when \<open>df\<close>
  reports a total of zero inodes, the sample it returns has \<open>usage_percent = 0\<close> and no
  division takes place. The sample has the five fields of every inode sample and no flag that
  marks it as invalid.
\<close>

theorem inode_zero_total_guarded:
  assumes "df_inodes e p = Some result" and "returncode result = 0"
    and "lines = split_sep (CHR 0x0A) (strip (stdout result))" and "2 \<le> length lines"
    and "parts = split_ws (lines ! 1)" and "6 \<le> length parts"
    and "py_int (parts ! 1) = Some 0"
    and "py_int (parts ! 2) = Some n_used" and "py_int (parts ! 3) = Some n_free"
  shows "get_inode_usage e p =
     Some \<lparr>path = p, usage_percent = 0, total_inodes = 0,
           used_inodes = n_used, free_inodes = n_free\<rparr>"
  using assms by (simp add: get_inode_usage_def Let_def)

lemma var_lines:
  "split_sep (CHR 0x0A) (strip (df_output ''/dev/sdb1 0 0 0 - /var''))
     = [df_header, ''/dev/sdb1 0 0 0 - /var'']"
  by (simp add: df_output_def df_header_def strip_def isspace_def)

lemma var_parts:
  "split_ws ''/dev/sdb1 0 0 0 - /var'' = [''/dev/sdb1'', ''0'', ''0'', ''0'', ''-'', ''/var'']"
  by (simp add: split_ws_def isspace_def)

lemma py_int_0: "py_int ''0'' = Some 0"
  by (simp add: py_int_def strip_def isspace_def isdigit_def digits_value_def)

theorem inode_zero_total_guarded_witness:
  "get_inode_usage example_env ''/var'' =
     Some \<lparr>path = ''/var'', usage_percent = 0, total_inodes = 0, used_inodes = 0, free_inodes = 0\<rparr>"
proof -
  have 1: "df_inodes example_env ''/var'' =
      Some \<lparr>returncode = 0, stdout = df_output ''/dev/sdb1 0 0 0 - /var''\<rparr>"
    by (simp add: example_env_def)
  show ?thesis
    by (rule inode_zero_total_guarded [OF 1, where lines = "[df_header, ''/dev/sdb1 0 0 0 - /var'']"
          and parts = "[''/dev/sdb1'', ''0'', ''0'', ''0'', ''-'', ''/var'']"])
       (simp_all add: var_lines var_parts py_int_0)
qed

text \<open>
  The disk collector has no such guard: on a filesystem of size zero the division raises,
  the collector catches the exception, and no sample is produced at all. The inode sample of
  the same filesystem is shown in full.
\<close>

theorem disk_zero_total_counterexample:
  "psutil_disk_usage example_env ''/var'' = Some \<lparr>total = 0, used = 0, free = 0\<rparr> \<and>
   get_disk_usage example_env ''/var'' = None \<and>
   get_inode_usage example_env ''/var'' =
     Some \<lparr>path = ''/var'', usage_percent = 0, total_inodes = 0, used_inodes = 0, free_inodes = 0\<rparr>"
  by (simp add: get_disk_usage_def get_inode_usage_def example_env_def var_lines var_parts py_int_0)

section \<open>Collection goes on after a failure\<close>

lemma insert_rows_Some:
  "insert_rows now (map Some ys) tbl = tbl @ map (\<lambda>d. \<lparr>timestamp = now, columns = d\<rparr>) ys"
  unfolding insert_rows_def by (induction ys arbitrary: tbl) simp_all

lemma insert_rows_single:
  "insert_rows now [x] tbl =
     tbl @ (case x of None \<Rightarrow> [] | Some d \<Rightarrow> [\<lparr>timestamp = now, columns = d\<rparr>])"
  unfolding insert_rows_def by (simp split: option.split)

lemma collect_disk_eq:
  "collect_disk cfg e =
     concat (map (\<lambda>p. if path_exists e p
                        then (case get_disk_usage e p of None \<Rightarrow> [] | Some d \<Rightarrow> [d]) else [])
                 (monitored_paths cfg))"
proof -
  have "foldl (\<lambda>disk_data p.
              if path_exists e p
              then (case get_disk_usage e p of None \<Rightarrow> disk_data | Some d \<Rightarrow> disk_data @ [d])
              else disk_data) acc ps
        = acc @ concat (map (\<lambda>p. if path_exists e p
                        then (case get_disk_usage e p of None \<Rightarrow> [] | Some d \<Rightarrow> [d]) else []) ps)"
    for acc ps
    by (rule foldl_snoc_concat) (simp split: option.split)
  then show ?thesis by (simp add: collect_disk_def)
qed

lemma collect_inode_eq:
  "collect_inode cfg e =
     concat (map (\<lambda>p. if path_exists e p
                        then (case get_inode_usage e p of None \<Rightarrow> [] | Some d \<Rightarrow> [d]) else [])
                 (monitored_paths cfg))"
proof -
  have "foldl (\<lambda>inode_data p.
              if path_exists e p
              then (case get_inode_usage e p of None \<Rightarrow> inode_data | Some d \<Rightarrow> inode_data @ [d])
              else inode_data) acc ps
        = acc @ concat (map (\<lambda>p. if path_exists e p
                        then (case get_inode_usage e p of None \<Rightarrow> [] | Some d \<Rightarrow> [d]) else []) ps)"
    for acc ps
    by (rule foldl_snoc_concat) (simp split: option.split)
  then show ?thesis by (simp add: collect_inode_def)
qed

lemma collect_filesystem_eq:
  "collect_filesystem cfg e =
     map (check_filesystem_health e) (filter (path_exists e) (monitored_paths cfg))"
proof -
  have "foldl (\<lambda>filesystem_data p.
              if path_exists e p then filesystem_data @ [check_filesystem_health e p]
              else filesystem_data) acc ps
        = acc @ map (check_filesystem_health e) (filter (path_exists e) ps)"
    for acc ps
    by (induction ps arbitrary: acc) simp_all
  then show ?thesis by (simp add: collect_filesystem_def)
qed

lemma store_metrics_tables:
  assumes "db_up e Store_metrics"
  shows "\<exists>st1. store_metrics e (map Some ds) (map Some is) sys (map Some fs) st = Inr st1 \<and>
     store.disk_usage st1 =
       store.disk_usage st @ map (\<lambda>d. \<lparr>timestamp = now_store_metrics e, columns = d\<rparr>) ds \<and>
     inode_usage st1 =
       inode_usage st @ map (\<lambda>d. \<lparr>timestamp = now_store_metrics e, columns = d\<rparr>) is \<and>
     system_health st1 =
       system_health st @
         (case sys of None \<Rightarrow> [] | Some d \<Rightarrow> [\<lparr>timestamp = now_store_metrics e, columns = d\<rparr>]) \<and>
     filesystem_health st1 =
       filesystem_health st @ map (\<lambda>d. \<lparr>timestamp = now_store_metrics e, columns = d\<rparr>) fs \<and>
     alerts st1 = alerts st"
  using assms
  by (simp add: store_metrics_def Let_def insert_rows_Some insert_rows_single)

lemma check_thresholds_keeps_samples:
  "check_thresholds_and_alert cfg e ds is st = Inr st' \<Longrightarrow>
     store.disk_usage st' = store.disk_usage st \<and> inode_usage st' = inode_usage st \<and>
     system_health st' = system_health st \<and> filesystem_health st' = filesystem_health st"
  by (auto simp: check_thresholds_and_alert_def store_alerts_def Let_def split: if_splits)

lemma delete_older_keeps:
  "r \<in> set rows \<Longrightarrow> C \<le> timestamp r \<Longrightarrow> r \<in> set (delete_older C rows)"
  by (simp add: delete_older_def)

lemma cycle_keeps_fresh:
  assumes up: "db_up e Store_metrics"
    and fresh: "now_retention e - retention_days cfg * 86400 \<le> now_store_metrics e"
  shows "(\<lambda>d. \<lparr>timestamp = now_store_metrics e, columns = d\<rparr>) ` set (collect_disk cfg e)
           \<subseteq> set (store.disk_usage (snd (run_monitoring_cycle cfg e st))) \<and>
         (\<lambda>d. \<lparr>timestamp = now_store_metrics e, columns = d\<rparr>) ` set (collect_inode cfg e)
           \<subseteq> set (inode_usage (snd (run_monitoring_cycle cfg e st)))"
proof -
  let ?D = "(\<lambda>d. \<lparr>timestamp = now_store_metrics e, columns = d\<rparr>) ` set (collect_disk cfg e)"
  let ?I = "(\<lambda>d. \<lparr>timestamp = now_store_metrics e, columns = d\<rparr>) ` set (collect_inode cfg e)"
  let ?C = "now_retention e - retention_days cfg * 86400"
  obtain st1 where st1:
    "store_metrics e (map Some (collect_disk cfg e)) (map Some (collect_inode cfg e))
       (get_system_health e) (map Some (collect_filesystem cfg e)) st = Inr st1"
    and t1: "store.disk_usage st1 =
       store.disk_usage st @ map (\<lambda>d. \<lparr>timestamp = now_store_metrics e, columns = d\<rparr>) (collect_disk cfg e)"
      "inode_usage st1 =
       inode_usage st @ map (\<lambda>d. \<lparr>timestamp = now_store_metrics e, columns = d\<rparr>) (collect_inode cfg e)"
    using store_metrics_tables [OF up] by blast
  have in1: "?D \<subseteq> set (store.disk_usage st1)" "?I \<subseteq> set (inode_usage st1)"
    by (simp_all add: t1)
  show ?thesis
  proof (cases "check_thresholds_and_alert cfg e (map Some (collect_disk cfg e))
                  (map Some (collect_inode cfg e)) st1")
    case (Inl err)
    then show ?thesis using st1 in1 by (simp add: run_monitoring_cycle_def Let_def)
  next
    case (Inr st2)
    have in2: "?D \<subseteq> set (store.disk_usage st2)" "?I \<subseteq> set (inode_usage st2)"
      using check_thresholds_keeps_samples [OF Inr] in1 by simp_all
    show ?thesis
    proof (cases "cleanup_old_data cfg e st2")
      case (Inl err)
      then show ?thesis using st1 Inr in2 by (simp add: run_monitoring_cycle_def Let_def)
    next
      case st3: (Inr st3)
      have "?D \<subseteq> set (delete_older ?C (store.disk_usage st2))"
        using in2(1) fresh by (auto intro!: delete_older_keeps)
      moreover have "?I \<subseteq> set (delete_older ?C (inode_usage st2))"
        using in2(2) fresh by (auto intro!: delete_older_keeps)
      ultimately have "?D \<subseteq> set (store.disk_usage st3)" "?I \<subseteq> set (inode_usage st3)"
        using cleanup_tables [OF st3] by simp_all
      then show ?thesis using st1 Inr st3 by (simp add: run_monitoring_cycle_def Let_def)
    qed
  qed
qed

lemma collected_disk:
  "p \<in> set (monitored_paths cfg) \<Longrightarrow> path_exists e p \<Longrightarrow> get_disk_usage e p = Some d
     \<Longrightarrow> d \<in> set (collect_disk cfg e)"
  by (force simp: collect_disk_eq)

lemma collected_inode:
  "p \<in> set (monitored_paths cfg) \<Longrightarrow> path_exists e p \<Longrightarrow> get_inode_usage e p = Some d
     \<Longrightarrow> d \<in> set (collect_inode cfg e)"
  by (force simp: collect_inode_eq)

text \<open>
  Claim C8. Each collection loop goes through every configured path: a path that does not
  exist or whose collector fails adds nothing, and every other path adds its sample, in the
  order of the configuration. When the database is reachable the batch written is exactly
  these samples after the rows already there. A sample collected from a path is therefore in
  its table when the cycle ends, whatever happened on the other paths, as long as the
  retention cutoff does not lie after the instant of the insertion.
\<close>

theorem collection_tolerates_failures:
  "collect_disk cfg e =
     concat (map (\<lambda>p. if path_exists e p
                        then (case get_disk_usage e p of None \<Rightarrow> [] | Some d \<Rightarrow> [d]) else [])
                 (monitored_paths cfg))
   \<and> collect_inode cfg e =
     concat (map (\<lambda>p. if path_exists e p
                        then (case get_inode_usage e p of None \<Rightarrow> [] | Some d \<Rightarrow> [d]) else [])
                 (monitored_paths cfg))
   \<and> collect_filesystem cfg e =
     map (check_filesystem_health e) (filter (path_exists e) (monitored_paths cfg))
   \<and> (db_up e Store_metrics \<longrightarrow>
        (\<exists>st1. store_metrics e (map Some (collect_disk cfg e)) (map Some (collect_inode cfg e))
                 (get_system_health e) (map Some (collect_filesystem cfg e)) st = Inr st1 \<and>
           store.disk_usage st1 =
             store.disk_usage st @
               map (\<lambda>d. \<lparr>timestamp = now_store_metrics e, columns = d\<rparr>) (collect_disk cfg e) \<and>
           inode_usage st1 =
             inode_usage st @
               map (\<lambda>d. \<lparr>timestamp = now_store_metrics e, columns = d\<rparr>) (collect_inode cfg e) \<and>
           system_health st1 =
             system_health st @
               (case get_system_health e of None \<Rightarrow> []
                | Some d \<Rightarrow> [\<lparr>timestamp = now_store_metrics e, columns = d\<rparr>]) \<and>
           filesystem_health st1 =
             filesystem_health st @
               map (\<lambda>d. \<lparr>timestamp = now_store_metrics e, columns = d\<rparr>) (collect_filesystem cfg e)))
   \<and> (db_up e Store_metrics \<and> now_retention e - retention_days cfg * 86400 \<le> now_store_metrics e \<longrightarrow>
        (\<forall>p \<in> set (monitored_paths cfg). \<forall>d. path_exists e p \<and> get_disk_usage e p = Some d \<longrightarrow>
           \<lparr>timestamp = now_store_metrics e, columns = d\<rparr>
             \<in> set (store.disk_usage (snd (run_monitoring_cycle cfg e st)))) \<and>
        (\<forall>p \<in> set (monitored_paths cfg). \<forall>d. path_exists e p \<and> get_inode_usage e p = Some d \<longrightarrow>
           \<lparr>timestamp = now_store_metrics e, columns = d\<rparr>
             \<in> set (inode_usage (snd (run_monitoring_cycle cfg e st)))))"
proof (intro conjI impI ballI allI)
  show "collect_disk cfg e =
     concat (map (\<lambda>p. if path_exists e p
                        then (case get_disk_usage e p of None \<Rightarrow> [] | Some d \<Rightarrow> [d]) else [])
                 (monitored_paths cfg))"
    by (rule collect_disk_eq)
  show "collect_inode cfg e =
     concat (map (\<lambda>p. if path_exists e p
                        then (case get_inode_usage e p of None \<Rightarrow> [] | Some d \<Rightarrow> [d]) else [])
                 (monitored_paths cfg))"
    by (rule collect_inode_eq)
  show "collect_filesystem cfg e =
     map (check_filesystem_health e) (filter (path_exists e) (monitored_paths cfg))"
    by (rule collect_filesystem_eq)
next
  assume "db_up e Store_metrics"
  from store_metrics_tables [OF this]
  show "\<exists>st1. store_metrics e (map Some (collect_disk cfg e)) (map Some (collect_inode cfg e))
                 (get_system_health e) (map Some (collect_filesystem cfg e)) st = Inr st1 \<and>
           store.disk_usage st1 =
             store.disk_usage st @
               map (\<lambda>d. \<lparr>timestamp = now_store_metrics e, columns = d\<rparr>) (collect_disk cfg e) \<and>
           inode_usage st1 =
             inode_usage st @
               map (\<lambda>d. \<lparr>timestamp = now_store_metrics e, columns = d\<rparr>) (collect_inode cfg e) \<and>
           system_health st1 =
             system_health st @
               (case get_system_health e of None \<Rightarrow> []
                | Some d \<Rightarrow> [\<lparr>timestamp = now_store_metrics e, columns = d\<rparr>]) \<and>
           filesystem_health st1 =
             filesystem_health st @
               map (\<lambda>d. \<lparr>timestamp = now_store_metrics e, columns = d\<rparr>) (collect_filesystem cfg e)"
    by blast
next
  fix p d
  assume a: "db_up e Store_metrics \<and> now_retention e - retention_days cfg * 86400 \<le> now_store_metrics e"
    and p: "p \<in> set (monitored_paths cfg)" and c: "path_exists e p \<and> get_disk_usage e p = Some d"
  have "d \<in> set (collect_disk cfg e)"
    using collected_disk p c by blast
  then show "\<lparr>timestamp = now_store_metrics e, columns = d\<rparr>
             \<in> set (store.disk_usage (snd (run_monitoring_cycle cfg e st)))"
    using cycle_keeps_fresh [of e cfg st] a by blast
next
  fix p d
  assume a: "db_up e Store_metrics \<and> now_retention e - retention_days cfg * 86400 \<le> now_store_metrics e"
    and p: "p \<in> set (monitored_paths cfg)" and c: "path_exists e p \<and> get_inode_usage e p = Some d"
  have "d \<in> set (collect_inode cfg e)"
    using collected_inode p c by blast
  then show "\<lparr>timestamp = now_store_metrics e, columns = d\<rparr>
             \<in> set (inode_usage (snd (run_monitoring_cycle cfg e st)))"
    using cycle_keeps_fresh [of e cfg st] a by blast
qed

lemma root_disk_sample:
  "get_disk_usage example_env ''/'' =
     Some \<lparr>path = ''/'', usage_percent = 90, total_gb = 100, used_gb = 90, free_gb = 10\<rparr>"
  by (simp add: get_disk_usage_def example_env_def py_round_def round_half_even_def)

lemma disk_failures:
  "get_disk_usage example_env ''/home'' = None" "get_disk_usage example_env ''/var'' = None"
  by (simp_all add: get_disk_usage_def example_env_def)

lemma root_lines:
  "split_sep (CHR 0x0A) (strip (df_output ''/dev/sda1 1000 960 40 96% /''))
     = [df_header, ''/dev/sda1 1000 960 40 96% /'']"
  by (simp add: df_output_def df_header_def strip_def isspace_def)

lemma root_parts:
  "split_ws ''/dev/sda1 1000 960 40 96% /'' = [''/dev/sda1'', ''1000'', ''960'', ''40'', ''96%'', ''/'']"
  by (simp add: split_ws_def isspace_def)

lemma root_numbers: "py_int ''1000'' = Some 1000" "py_int ''960'' = Some 960" "py_int ''40'' = Some 40"
  by (simp_all add: py_int_def strip_def isspace_def isdigit_def digits_value_def)

lemma inode_samples:
  "get_inode_usage example_env ''/'' =
     Some \<lparr>path = ''/'', usage_percent = 96, total_inodes = 1000, used_inodes = 960, free_inodes = 40\<rparr>"
  "get_inode_usage example_env ''/home'' = None"
  "get_inode_usage example_env ''/var'' =
     Some \<lparr>path = ''/var'', usage_percent = 0, total_inodes = 0, used_inodes = 0, free_inodes = 0\<rparr>"
  by (simp_all add: get_inode_usage_def example_env_def root_lines root_parts root_numbers
      var_lines var_parts py_int_0 py_round_def round_half_even_def)

theorem collection_tolerates_failures_witness:
  "db_up example_env Store_metrics \<and>
   now_retention example_env - retention_days default_config * 86400 \<le> now_store_metrics example_env \<and>
   monitored_paths default_config = [''/'', ''/home'', ''/var'', ''/tmp''] \<and>
   get_disk_usage example_env ''/home'' = None \<and> get_disk_usage example_env ''/var'' = None \<and>
   get_inode_usage example_env ''/home'' = None \<and>
   collect_disk default_config example_env =
     [\<lparr>path = ''/'', usage_percent = 90, total_gb = 100, used_gb = 90, free_gb = 10\<rparr>] \<and>
   collect_inode default_config example_env =
     [\<lparr>path = ''/'', usage_percent = 96, total_inodes = 1000, used_inodes = 960, free_inodes = 40\<rparr>,
      \<lparr>path = ''/var'', usage_percent = 0, total_inodes = 0, used_inodes = 0, free_inodes = 0\<rparr>] \<and>
   \<lparr>timestamp = 8000000,
    columns = \<lparr>path = ''/'', usage_percent = 90, total_gb = 100, used_gb = 90, free_gb = 10\<rparr>\<rparr>
     \<in> set (store.disk_usage (snd (run_monitoring_cycle default_config example_env empty_store))) \<and>
   \<lparr>timestamp = 8000000,
    columns = \<lparr>path = ''/var'', usage_percent = 0, total_inodes = 0, used_inodes = 0, free_inodes = 0\<rparr>\<rparr>
     \<in> set (inode_usage (snd (run_monitoring_cycle default_config example_env empty_store)))"
proof -
  have h: "db_up example_env Store_metrics \<and>
      now_retention example_env - retention_days default_config * 86400 \<le> now_store_metrics example_env"
    by (simp add: example_env_def default_config_def)
  have paths: "monitored_paths default_config = [''/'', ''/home'', ''/var'', ''/tmp'']"
      "path_exists example_env ''/''" "path_exists example_env ''/home''"
      "path_exists example_env ''/var''" "\<not> path_exists example_env ''/tmp''"
    by (simp_all add: example_env_def default_config_def)
  have t: "now_store_metrics example_env = 8000000"
    by (simp add: example_env_def)
  note main = collection_tolerates_failures [of default_config example_env empty_store]
  have batch: "collect_disk default_config example_env =
     [\<lparr>path = ''/'', usage_percent = 90, total_gb = 100, used_gb = 90, free_gb = 10\<rparr>]"
    using main [THEN conjunct1] by (simp add: paths root_disk_sample disk_failures)
  have batch_inode: "collect_inode default_config example_env =
     [\<lparr>path = ''/'', usage_percent = 96, total_inodes = 1000, used_inodes = 960, free_inodes = 40\<rparr>,
      \<lparr>path = ''/var'', usage_percent = 0, total_inodes = 0, used_inodes = 0, free_inodes = 0\<rparr>]"
    using main [THEN conjunct2, THEN conjunct1] by (simp add: paths inode_samples)
  have stored: "\<lparr>timestamp = 8000000,
    columns = \<lparr>path = ''/'', usage_percent = 90, total_gb = 100, used_gb = 90, free_gb = 10\<rparr>\<rparr>
     \<in> set (store.disk_usage (snd (run_monitoring_cycle default_config example_env empty_store)))"
  proof -
    from main h have "\<forall>p \<in> set (monitored_paths default_config).
        \<forall>d. path_exists example_env p \<and> get_disk_usage example_env p = Some d \<longrightarrow>
           \<lparr>timestamp = now_store_metrics example_env, columns = d\<rparr>
             \<in> set (store.disk_usage (snd (run_monitoring_cycle default_config example_env empty_store)))"
      by blast
    moreover have "''/'' \<in> set (monitored_paths default_config)"
      by (simp add: paths)
    ultimately have "\<lparr>timestamp = now_store_metrics example_env,
        columns = \<lparr>path = ''/'', usage_percent = 90, total_gb = 100, used_gb = 90, free_gb = 10\<rparr>\<rparr>
          \<in> set (store.disk_usage (snd (run_monitoring_cycle default_config example_env empty_store)))"
      using paths(2) root_disk_sample by blast
    then show ?thesis by (simp only: t)
  qed
  have stored_inode: "\<lparr>timestamp = 8000000,
    columns = \<lparr>path = ''/var'', usage_percent = 0, total_inodes = 0, used_inodes = 0, free_inodes = 0\<rparr>\<rparr>
     \<in> set (inode_usage (snd (run_monitoring_cycle default_config example_env empty_store)))"
  proof -
    from main h have "\<forall>p \<in> set (monitored_paths default_config).
        \<forall>d. path_exists example_env p \<and> get_inode_usage example_env p = Some d \<longrightarrow>
           \<lparr>timestamp = now_store_metrics example_env, columns = d\<rparr>
             \<in> set (inode_usage (snd (run_monitoring_cycle default_config example_env empty_store)))"
      by blast
    moreover have "''/var'' \<in> set (monitored_paths default_config)"
      by (simp add: paths)
    ultimately have "\<lparr>timestamp = now_store_metrics example_env,
        columns = \<lparr>path = ''/var'', usage_percent = 0, total_inodes = 0, used_inodes = 0, free_inodes = 0\<rparr>\<rparr>
          \<in> set (inode_usage (snd (run_monitoring_cycle default_config example_env empty_store)))"
      using paths(4) inode_samples(3) by blast
    then show ?thesis by (simp only: t)
  qed
  show ?thesis
    using h paths(1) disk_failures inode_samples(2) batch batch_inode stored stored_inode by simp
qed

section \<open>Series, paths and lookups\<close>

lemma set_unique: "set (unique xs) = set xs"
  by (induction xs rule: unique.induct) auto

lemma map_of_foldl_update:
  "map_of (foldl (\<lambda>acc q. if keep q then AList.update q (val q) acc else acc) acc ps) p =
     (if p \<in> set ps \<and> keep p then Some (val p) else map_of acc p)"
  by (induction ps arbitrary: acc) (simp_all add: update_conv')

lemma length_rows_of_path:
  "length (rows_of_path p dd) = length (filter (\<lambda>r. path (columns r) = p) dd)"
  by (simp add: rows_of_path_def)

lemma path_in_data:
  assumes "2 \<le> length (rows_of_path p dd)"
  shows "p \<in> set (unique (map (\<lambda>r. path (columns r)) dd))"
proof -
  have "filter (\<lambda>r. path (columns r) = p) dd \<noteq> []"
    using assms by (auto simp: length_rows_of_path)
  then show ?thesis
    by (auto simp: set_unique filter_empty_conv)
qed


lemma trend_lookup:
  "map_of (foldl (trend_of_path dd) [] (unique (map (\<lambda>r. path (columns r)) dd))) p =
     (if 2 \<le> length (rows_of_path p dd) then Some (disk_trend_of (rows_of_path p dd)) else None)"
proof -
  have step: "trend_of_path dd =
      (\<lambda>acc q. if 2 \<le> length (rows_of_path q dd)
                then AList.update q (disk_trend_of (rows_of_path q dd)) acc else acc)"
    by (intro ext) (auto simp: trend_of_path_def Let_def)
  show ?thesis
    unfolding step map_of_foldl_update using path_in_data [of p dd] by auto
qed





lemma count_list_map:
  "count_list (map f xs) v = length (filter (\<lambda>x. f x = v) xs)"
  by (induction xs) simp_all

lemma length_filter_all:
  "length (filter P xs) = length xs \<longleftrightarrow> (\<forall>x \<in> set xs. P x)"
proof -
  have "length (filter P xs) + length (filter (\<lambda>x. \<not> P x) xs) = length xs"
    by (rule sum_length_filter_compl)
  then have "length (filter P xs) = length xs \<longleftrightarrow> filter (\<lambda>x. \<not> P x) xs = []"
    by auto
  then show ?thesis
    by (simp add: filter_empty_conv)
qed

lemma window_rows:
  "rows_of_path p (get_disk_usage_data st now d) =
     sort_key timestamp
       (filter (\<lambda>r. path (columns r) = p \<and> window_start now d \<le> timestamp r) (store.disk_usage st))"
proof -
  have "sort_key timestamp (sort_key timestamp xs) = sort_key timestamp xs" for xs :: "disk_sample row list"
    by (rule sort_key_id_if_sorted) simp
  then show ?thesis
    by (simp add: rows_of_path_def get_disk_usage_data_def filter_sort conj_commute)
qed



section \<open>Cleanup effectiveness of one path\<close>


lemmas cleanup_eval_defs = analyze_cleanup_effectiveness_def get_disk_usage_data_def window_start_def
  timedelta_days_def analyze_path_def rows_of_path_def cleanup_entry_of_def usage_series_def
  diffs_def py_round_def round_half_even_def disk_row_def disk_at_def Let_def





section \<open>Trend of a metric series\<close>











section \<open>The rollup over the paths\<close>

text \<open>
  Claim C9. The monthly report rates the entries of the cleanup analysis of the last 30 days:
  \<open>Excellent\<close> when every entry is labelled \<open>good\<close> (also when there is no entry),
  \<open>Good\<close> when more than half of them are, \<open>Needs Improvement\<close> otherwise; the two
  counts it prints are the number of entries labelled \<open>good\<close> and the number of entries.
  Without any disk data there is no rating.
\<close>

theorem rollup_rating:
  "rollup No_data = None \<and>
   rollup (Analysis a) =
     Some \<lparr>overall_rating =
             (if \<forall>(p, data) \<in> set a. effectiveness data = ''good'' then ''Excellent''
              else if length a < 2 * length (filter (\<lambda>(p, data). effectiveness data = ''good'') a)
              then ''Good''
              else ''Needs Improvement''),
           good_count = length (filter (\<lambda>(p, data). effectiveness data = ''good'') a),
           total_paths = length a\<rparr> \<and>
   generate_monthly_report st now = rollup (analyze_cleanup_effectiveness st now 30)"
proof -
  let ?good = "\<lambda>(p, data). effectiveness data = ''good''"
  have cnt: "count_list (map (\<lambda>(p, data). effectiveness data) a) ''good'' = length (filter ?good a)"
    by (simp add: count_list_map case_prod_unfold)
  have all: "length (filter ?good a) = length a \<longleftrightarrow> (\<forall>x \<in> set a. ?good x)"
    by (rule length_filter_all)
  have half: "real (length a) / 2 < real (length (filter ?good a))
      \<longleftrightarrow> length a < 2 * length (filter ?good a)"
  proof -
    have "real (length a) / 2 < real (length (filter ?good a))
        \<longleftrightarrow> real (length a) < real (2 * length (filter ?good a))"
      by (simp add: field_simps)
    also have "\<dots> \<longleftrightarrow> length a < 2 * length (filter ?good a)"
      by (rule of_nat_less_iff)
    finally show ?thesis .
  qed
  show ?thesis
    unfolding rollup_def generate_monthly_report_def
    by (simp add: Let_def cnt all half)
qed

lemma mixed_analysis:
  "analyze_cleanup_effectiveness mixed_store 86400 30 =
     Analysis
       [(''/a'', \<lparr>initial_usage = 50, final_usage = 40, trend = - 10, avg_daily_change = - 10,
                  cleanup_events = 1, effectiveness = ''good''\<rparr>),
        (''/b'', \<lparr>initial_usage = 30, final_usage = 20, trend = - 10, avg_daily_change = - 10,
                  cleanup_events = 1, effectiveness = ''good''\<rparr>),
        (''/c'', \<lparr>initial_usage = 10, final_usage = 30, trend = 20, avg_daily_change = 20,
                  cleanup_events = 0, effectiveness = ''poor''\<rparr>)]"
  by (simp add: mixed_store_def cleanup_eval_defs)

theorem rollup_rating_witness:
  "generate_monthly_report mixed_store 86400 =
     Some \<lparr>overall_rating = ''Good'', good_count = 2, total_paths = 3\<rparr> \<and>
   generate_monthly_report empty_store 86400 = None \<and>
   rollup (Analysis []) = Some \<lparr>overall_rating = ''Excellent'', good_count = 0, total_paths = 0\<rparr> \<and>
   rollup (Analysis
       [(''/a'', \<lparr>initial_usage = 50, final_usage = 40, trend = - 10, avg_daily_change = - 10,
                  cleanup_events = 1, effectiveness = ''good''\<rparr>),
        (''/c'', \<lparr>initial_usage = 10, final_usage = 12, trend = 2, avg_daily_change = 2,
                  cleanup_events = 0, effectiveness = ''stable''\<rparr>)])
     = Some \<lparr>overall_rating = ''Needs Improvement'', good_count = 1, total_paths = 2\<rparr>"
proof -
  have none: "analyze_cleanup_effectiveness empty_store 86400 30 = No_data"
    by (simp add: empty_store_def analyze_cleanup_effectiveness_def get_disk_usage_data_def)
  have a: "generate_monthly_report mixed_store 86400 =
     Some \<lparr>overall_rating = ''Good'', good_count = 2, total_paths = 3\<rparr>"
    using rollup_rating [of
       "[(''/a'', \<lparr>initial_usage = 50, final_usage = 40, trend = - 10, avg_daily_change = - 10,
                  cleanup_events = 1, effectiveness = ''good''\<rparr>),
        (''/b'', \<lparr>initial_usage = 30, final_usage = 20, trend = - 10, avg_daily_change = - 10,
                  cleanup_events = 1, effectiveness = ''good''\<rparr>),
        (''/c'', \<lparr>initial_usage = 10, final_usage = 30, trend = 20, avg_daily_change = 20,
                  cleanup_events = 0, effectiveness = ''poor''\<rparr>)]" mixed_store 86400]
    by (simp add: mixed_analysis)
  have b: "generate_monthly_report empty_store 86400 = None"
    using rollup_rating [of "[]" empty_store 86400] by (simp add: none)
  have c: "rollup (Analysis []) =
      Some \<lparr>overall_rating = ''Excellent'', good_count = 0, total_paths = 0\<rparr>"
    using rollup_rating [of "[]" empty_store 86400] by simp
  have d: "rollup (Analysis
       [(''/a'', \<lparr>initial_usage = 50, final_usage = 40, trend = - 10, avg_daily_change = - 10,
                  cleanup_events = 1, effectiveness = ''good''\<rparr>),
        (''/c'', \<lparr>initial_usage = 10, final_usage = 12, trend = 2, avg_daily_change = 2,
                  cleanup_events = 0, effectiveness = ''stable''\<rparr>)])
     = Some \<lparr>overall_rating = ''Needs Improvement'', good_count = 1, total_paths = 2\<rparr>"
    using rollup_rating [of
       "[(''/a'', \<lparr>initial_usage = 50, final_usage = 40, trend = - 10, avg_daily_change = - 10,
                  cleanup_events = 1, effectiveness = ''good''\<rparr>),
        (''/c'', \<lparr>initial_usage = 10, final_usage = 12, trend = 2, avg_daily_change = 2,
                  cleanup_events = 0, effectiveness = ''stable''\<rparr>)]" empty_store 86400]
    by simp
  show ?thesis
    using a b c d by simp
qed

section \<open>Paths in the disk trend map\<close>

text \<open>
  Claim C10. Let \<open>n\<close> be the number of samples of path \<open>p\<close> inside the window. When the
  window holds any disk sample, the disk trend map has an entry for \<open>p\<close> exactly when
  \<open>n\<close> is at least 2; with exactly one sample there is none. When the window holds no
  disk sample at all, the result has no disk trend map.
\<close>

theorem disk_trend_needs_two_samples:
  assumes "n = length (filter (\<lambda>r. path (columns r) = p \<and> window_start now d \<le> timestamp r)
                        (store.disk_usage st))"
  shows "case trends.disk_usage (generate_trend_analysis st now d) of
           None \<Rightarrow> filter (\<lambda>r. window_start now d \<le> timestamp r) (store.disk_usage st) = []
         | Some m \<Rightarrow> ((p \<in> fst ` set m) = (2 \<le> n)) \<and> (n = 1 \<longrightarrow> map_of m p = None)"
proof -
  let ?dd = "get_disk_usage_data st now d"
  let ?m = "foldl (trend_of_path ?dd) [] (unique (map (\<lambda>r. path (columns r)) ?dd))"
  have n: "length (rows_of_path p ?dd) = n"
    by (simp add: window_rows assms)
  have look: "map_of ?m p = (if 2 \<le> n then Some (disk_trend_of (rows_of_path p ?dd)) else None)"
    by (simp add: trend_lookup n)
  have keys: "(p \<in> fst ` set ?m) = (2 \<le> n)"
  proof -
    have "(p \<in> fst ` set ?m) = (map_of ?m p \<noteq> None)"
      by (simp add: map_of_eq_None_iff)
    then show ?thesis
      by (simp add: look)
  qed
  have empty: "?dd = [] \<longleftrightarrow> filter (\<lambda>r. window_start now d \<le> timestamp r) (store.disk_usage st) = []"
    by (simp add: get_disk_usage_data_def flip: length_0_conv)
  show ?thesis
    using keys look empty by (simp add: generate_trend_analysis_def Let_def)
qed

lemmas disk_trend_eval_defs = generate_trend_analysis_def get_system_health_data_def
  get_disk_usage_data_def window_start_def timedelta_days_def trend_of_path_def rows_of_path_def
  disk_trend_of_def usage_series_def diff_mean_def diffs_def mean_def classify_trend_def
  series_max_def series_min_def py_round_def round_half_even_def disk_row_def disk_at_def Let_def

lemma mixed_trends:
  "trends.disk_usage (generate_trend_analysis mixed_store 86400 30) =
     Some [(''/a'', \<lparr>current_usage = 40, disk_trend.trend = ''decreasing'', max_usage = 50, min_usage = 40\<rparr>),
           (''/b'', \<lparr>current_usage = 20, disk_trend.trend = ''decreasing'', max_usage = 30, min_usage = 20\<rparr>),
           (''/c'', \<lparr>current_usage = 30, disk_trend.trend = ''increasing'', max_usage = 30, min_usage = 10\<rparr>)]"
  by (simp add: mixed_store_def disk_trend_eval_defs)

theorem disk_trend_needs_two_samples_witness:
  "length (filter (\<lambda>r. path (columns r) = ''/d'' \<and> window_start 86400 30 \<le> timestamp r)
             (store.disk_usage mixed_store)) = 1 \<and>
   (\<exists>m. trends.disk_usage (generate_trend_analysis mixed_store 86400 30) = Some m \<and>
        map_of m ''/d'' = None \<and> ''/d'' \<notin> fst ` set m \<and> ''/c'' \<in> fst ` set m)"
proof -
  have one: "1 = length (filter (\<lambda>r. path (columns r) = ''/d'' \<and> window_start 86400 30 \<le> timestamp r)
             (store.disk_usage mixed_store))"
    by (simp add: mixed_store_def window_start_def timedelta_days_def disk_row_def disk_at_def)
  have two: "2 = length (filter (\<lambda>r. path (columns r) = ''/c'' \<and> window_start 86400 30 \<le> timestamp r)
             (store.disk_usage mixed_store))"
    by (simp add: mixed_store_def window_start_def timedelta_days_def disk_row_def disk_at_def)
  show ?thesis
    using disk_trend_needs_two_samples [OF one] disk_trend_needs_two_samples [OF two] one
    by (simp add: mixed_trends)
qed

end
